theory Spec2Isabelle
  imports Complex_Main
begin

section \<open>Values of the Python program\<close>

text \<open>
  A NumPy/Python float is a finite real, one of the two infinities, or NaN. Finite
  arithmetic is exact real arithmetic: rounding and overflow of finite operands are
  not modelled. The special values follow IEEE 754, which is what decides the
  comparisons and the \<open>math.isnan\<close> test of \<open>eval_MSE\<close>.
\<close>

datatype pyfloat = Fin real | PInf | NInf | NaN

text \<open>The exceptions the modelled code can raise; \<open>Raised\<close> is any exception of a callee.\<close>

datatype exn =
    IndexError | ValueError | KeyError | TypeError | ZeroDivisionError | AttributeError
  | Raised string

type_synonym vec = "pyfloat list"

fun fneg :: "pyfloat \<Rightarrow> pyfloat" where
  "fneg (Fin a) = Fin (- a)"
| "fneg PInf = NInf"
| "fneg NInf = PInf"
| "fneg NaN = NaN"

fun fadd :: "pyfloat \<Rightarrow> pyfloat \<Rightarrow> pyfloat" where
  "fadd (Fin a) (Fin b) = Fin (a + b)"
| "fadd NaN _ = NaN"
| "fadd _ NaN = NaN"
| "fadd PInf NInf = NaN"
| "fadd NInf PInf = NaN"
| "fadd PInf _ = PInf"
| "fadd _ PInf = PInf"
| "fadd NInf _ = NInf"
| "fadd _ NInf = NInf"

definition fsub :: "pyfloat \<Rightarrow> pyfloat \<Rightarrow> pyfloat" where
  "fsub a b = fadd a (fneg b)"

definition inf_of_sign :: "real \<Rightarrow> pyfloat" where
  "inf_of_sign s = (if s = 0 then NaN else if 0 < s then PInf else NInf)"

fun fmul :: "pyfloat \<Rightarrow> pyfloat \<Rightarrow> pyfloat" where
  "fmul (Fin a) (Fin b) = Fin (a * b)"
| "fmul NaN _ = NaN"
| "fmul _ NaN = NaN"
| "fmul PInf (Fin b) = inf_of_sign b"
| "fmul NInf (Fin b) = inf_of_sign (- b)"
| "fmul (Fin a) PInf = inf_of_sign a"
| "fmul (Fin a) NInf = inf_of_sign (- a)"
| "fmul PInf PInf = PInf"
| "fmul NInf NInf = PInf"
| "fmul PInf NInf = NInf"
| "fmul NInf PInf = NInf"

text \<open>\<open>v ** 2\<close> on a float.\<close>

definition fpow2 :: "pyfloat \<Rightarrow> pyfloat" where
  "fpow2 a = fmul a a"

fun fsqrt :: "pyfloat \<Rightarrow> pyfloat" where
  "fsqrt (Fin a) = (if a < 0 then NaN else Fin (sqrt a))"
| "fsqrt PInf = PInf"
| "fsqrt NInf = NaN"
| "fsqrt NaN = NaN"

text \<open>Python's \<open>a > b\<close> on floats: every comparison with NaN is false.\<close>

fun fgt :: "pyfloat \<Rightarrow> pyfloat \<Rightarrow> bool" where
  "fgt (Fin a) (Fin b) = (b < a)"
| "fgt NaN _ = False"
| "fgt _ NaN = False"
| "fgt NInf _ = False"
| "fgt _ PInf = False"
| "fgt PInf _ = True"
| "fgt _ NInf = True"

definition isnan :: "pyfloat \<Rightarrow> bool" where
  "isnan a = (a = NaN)"

section \<open>The NumPy operations the program uses\<close>

text \<open>\<open>jnp.sum\<close> of a one-dimensional array.\<close>

definition np_sum :: "vec \<Rightarrow> pyfloat" where
  "np_sum v = foldr fadd v (Fin 0)"

text \<open>\<open>np.linalg.norm\<close> of a one-dimensional array: the root of the sum of squares.\<close>

definition norm_vec :: "vec \<Rightarrow> pyfloat" where
  "norm_vec v = fsqrt (np_sum (map fpow2 v))"

text \<open>
  \<open>a[i]\<close> for an integer index: a negative index counts from the end, an index out
  of range raises \<open>IndexError\<close>.
\<close>

definition np_index :: "'a list \<Rightarrow> int \<Rightarrow> exn + 'a" where
  "np_index a i =
     (if 0 \<le> i \<and> i < int (length a) then Inr (a ! nat i)
      else if - int (length a) \<le> i \<and> i < 0 then Inr (a ! nat (int (length a) + i))
      else Inl IndexError)"

text \<open>\<open>a[idx]\<close> for an integer index array \<open>idx\<close>.\<close>

fun np_take :: "'a list \<Rightarrow> int list \<Rightarrow> exn + 'a list" where
  "np_take a [] = Inr []"
| "np_take a (i # idx) =
     (case np_index a i of
        Inl e \<Rightarrow> Inl e
      | Inr v \<Rightarrow> (case np_take a idx of Inl e \<Rightarrow> Inl e | Inr vs \<Rightarrow> Inr (v # vs)))"

text \<open>\<open>A[i, :]\<close> for a row index produced by \<open>enumerate\<close> (never negative).\<close>

definition np_row :: "'a list list \<Rightarrow> nat \<Rightarrow> exn + 'a list" where
  "np_row A i = (if i < length A then Inr (A ! i) else Inl IndexError)"

text \<open>
  \<open>a - b\<close> on one-dimensional arrays, with NumPy's broadcasting: the shapes agree,
  or one of them has a single element; any other pair of shapes raises \<open>ValueError\<close>.
\<close>

definition np_sub :: "vec \<Rightarrow> vec \<Rightarrow> exn + vec" where
  "np_sub a b =
     (if length a = length b then Inr (map2 fsub a b)
      else if length a = 1 then Inr (map (fsub (hd a)) b)
      else if length b = 1 then Inr (map (\<lambda>v. fsub v (hd b)) a)
      else Inl ValueError)"

text \<open>\<open>enumerate(y)\<close>.\<close>

definition enumerate_rows :: "'a list \<Rightarrow> (nat \<times> 'a) list" where
  "enumerate_rows y = zip [0..<length y] y"

section \<open>The objective function\<close>

record SimplicialComplex =
  num_nodes :: nat

record CochainP0 =
  cochain_complex :: SimplicialComplex
  coeffs :: vec

text \<open>
  An individual is a \<open>gp.PrimitiveTree\<close>: the list of the tree's nodes in prefix
  order. The compiled energy takes two cochains and returns a scalar, or raises.
\<close>

datatype node = Primitive string nat | Terminal string

type_synonym individual = "node list"

type_synonym energy = "CochainP0 \<Rightarrow> CochainP0 \<Rightarrow> exn + pyfloat"

record ObjFunction =
  obj_S :: SimplicialComplex
  obj_bnodes :: "int list"
  obj_gamma :: pyfloat
  obj_energy_func :: "energy option"
  obj_individual :: "individual option"

text \<open>\<open>ObjFunction.__init__\<close>: the energy is not bound yet.\<close>

definition ObjFunction_init :: "SimplicialComplex \<Rightarrow> int list \<Rightarrow> pyfloat \<Rightarrow> ObjFunction" where
  "ObjFunction_init S bnodes gamma =
     \<lparr>obj_S = S, obj_bnodes = bnodes, obj_gamma = gamma,
      obj_energy_func = None, obj_individual = None\<rparr>"

definition set_energy_func :: "ObjFunction \<Rightarrow> energy \<Rightarrow> individual \<Rightarrow> ObjFunction" where
  "set_energy_func self func ind =
     self\<lparr>obj_energy_func := Some func, obj_individual := Some ind\<rparr>"

text \<open>
  \<open>ObjFunction.total_energy\<close>. The penalty is computed first, so its exceptions come
  before those of the energy. The method assigns to no attribute of \<open>self\<close>: it is
  a function of the instance and returns no new instance.
\<close>

definition total_energy :: "ObjFunction \<Rightarrow> vec \<Rightarrow> vec \<Rightarrow> vec \<Rightarrow> exn + pyfloat" where
  "total_energy self vec_x vec_y vec_bvalues =
     (case np_take vec_x (obj_bnodes self) of
        Inl e \<Rightarrow> Inl e
      | Inr xb \<Rightarrow>
          (case np_sub xb vec_bvalues of
             Inl e \<Rightarrow> Inl e
           | Inr d \<Rightarrow>
               (let penalty = fmul (fmul (Fin 0.5) (obj_gamma self)) (np_sum (map fpow2 d));
                    c = \<lparr>cochain_complex = obj_S self, coeffs = vec_x\<rparr>;
                    fk = \<lparr>cochain_complex = obj_S self, coeffs = vec_y\<rparr>
                in case obj_energy_func self of
                     None \<Rightarrow> Inl AttributeError
                   | Some f \<Rightarrow>
                       (case f c fk of
                          Inl e \<Rightarrow> Inl e
                        | Inr en \<Rightarrow> Inr (fadd en penalty)))))"

section \<open>Services the program calls and does not define\<close>

text \<open>
  \<open>objective\<close> is the type of \<open>fun(x, vec_y, vec_bvalues)\<close> as SciPy calls it and
  \<open>jacobian\<close> that of its gradient. \<open>OptimizeResult\<close> is what \<open>minimize\<close> returns:
  the point where it stopped and whether it reports convergence.
\<close>

type_synonym objective = "vec \<Rightarrow> vec \<Rightarrow> vec \<Rightarrow> exn + pyfloat"

type_synonym jacobian = "vec \<Rightarrow> vec \<Rightarrow> vec \<Rightarrow> exn + vec"

record OptimizeResult =
  res_x :: vec
  res_success :: bool

text \<open>\<open>base.Toolbox\<close>, of which the evaluation uses \<open>compile\<close> only.\<close>

record Toolbox =
  compile :: "individual \<Rightarrow> exn + energy"

text \<open>
  The module-level imports: \<open>jit(grad(f))\<close> of JAX, \<open>scipy.optimize.minimize\<close> with
  \<open>method="L-BFGS-B"\<close>, \<open>str\<close> of a \<open>gp.PrimitiveTree\<close>, and the global list
  \<open>primitives_strings\<close> computed once by \<open>get_primitives_strings\<close>. None of them
  is code of this file, so the evaluation takes them as parameters.
\<close>

record extern =
  jit_grad :: "objective \<Rightarrow> jacobian"
  minimize :: "objective \<Rightarrow> vec \<Rightarrow> vec \<times> vec \<Rightarrow> jacobian \<Rightarrow> exn + OptimizeResult"
  str_of :: "individual \<Rightarrow> string"
  primitives_strings :: "string list"

section \<open>Error over a dataset partition\<close>

text \<open>What \<open>eval_MSE\<close> returns: the total error, or the list of solved fields.\<close>

datatype mse_result = Total pyfloat | BestSols "vec list"

text \<open>
  The body of the \<open>for i, vec_y in enumerate(y)\<close> loop of \<open>eval_MSE\<close>, on the loop
  state \<open>(total_err, best_sols)\<close>.
\<close>

fun eval_MSE_loop ::
  "extern \<Rightarrow> ObjFunction \<Rightarrow> jacobian \<Rightarrow> vec list \<Rightarrow> vec list \<Rightarrow> CochainP0 \<Rightarrow> bool \<Rightarrow>
   (nat \<times> vec) list \<Rightarrow> pyfloat \<times> vec list \<Rightarrow> exn + (pyfloat \<times> vec list)" where
  "eval_MSE_loop ex obj jac X bvalues u_0 return_best_sol [] st = Inr st"
| "eval_MSE_loop ex obj jac X bvalues u_0 return_best_sol ((i, vec_y) # rest) (total_err, best_sols) =
     (case np_row bvalues i of
        Inl e \<Rightarrow> Inl e
      | Inr vec_bvalues \<Rightarrow>
          (case minimize ex (total_energy obj) (coeffs u_0) (vec_y, vec_bvalues) jac of
             Inl e \<Rightarrow> Inl e
           | Inr res \<Rightarrow>
               (let x = res_x res;
                    best_sols' = (if return_best_sol then best_sols @ [x] else best_sols)
                in case np_row X i of
                     Inl e \<Rightarrow> Inl e
                   | Inr target \<Rightarrow>
                       (case np_sub x target of
                          Inl e \<Rightarrow> Inl e
                        | Inr d \<Rightarrow>
                            (let current_err = fpow2 (norm_vec d);
                                 current_err' =
                                   (if fgt current_err (Fin 100) \<or> isnan current_err
                                    then Fin 100 else current_err)
                             in eval_MSE_loop ex obj jac X bvalues u_0 return_best_sol rest
                                  (fadd total_err current_err', best_sols'))))))"

definition eval_MSE ::
  "extern \<Rightarrow> individual \<Rightarrow> vec list \<Rightarrow> vec list \<Rightarrow> vec list \<Rightarrow> SimplicialComplex \<Rightarrow>
   int list \<Rightarrow> pyfloat \<Rightarrow> CochainP0 \<Rightarrow> Toolbox \<Rightarrow> bool \<Rightarrow> exn + mse_result" where
  "eval_MSE ex ind X y bvalues S bnodes gamma u_0 toolbox return_best_sol =
     (case compile toolbox ind of
        Inl e \<Rightarrow> Inl e
      | Inr energy_func \<Rightarrow>
          (let obj = set_energy_func (ObjFunction_init S bnodes gamma) energy_func ind;
               jac = jit_grad ex (total_energy obj)
           in case eval_MSE_loop ex obj jac X bvalues u_0 return_best_sol
                     (enumerate_rows y) (Fin 0, []) of
                Inl e \<Rightarrow> Inl e
              | Inr (total_err, best_sols) \<Rightarrow>
                  if return_best_sol then Inr (BestSols best_sols)
                  else if length X = 0 then Inl ZeroDivisionError
                  else Inr (Total (fmul total_err (Fin (1 / real (length X)))))))"

section \<open>Fitness\<close>

text \<open>A value of the configuration dictionary \<open>penalty\<close>, as YAML loads it.\<close>

datatype yaml = YStr string | YNum pyfloat | YNone

definition py_getitem :: "(string \<rightharpoonup> yaml) \<Rightarrow> string \<Rightarrow> exn + yaml" where
  "py_getitem d k = (case d k of None \<Rightarrow> Inl KeyError | Some v \<Rightarrow> Inr v)"

text \<open>
  \<open>s.count(sub)\<close>: the number of non-overlapping occurrences of \<open>sub\<close> in \<open>s\<close>,
  scanning from the left; for the empty \<open>sub\<close> it is \<open>len(s) + 1\<close>.
\<close>

function str_count :: "string \<Rightarrow> string \<Rightarrow> nat" where
  "str_count s sub =
     (if sub = [] then length s + 1
      else if length s < length sub then 0
      else if take (length sub) s = sub then 1 + str_count (drop (length sub) s) sub
      else str_count (tl s) sub)"
  by pat_completeness auto
termination
  by (relation "measure (\<lambda>(s, sub). length s)") (auto simp: neq_Nil_conv)

declare str_count.simps [simp del]

text \<open>\<open>max\<close> of a list of integers: \<open>ValueError\<close> on the empty list.\<close>

fun py_max :: "nat list \<Rightarrow> exn + nat" where
  "py_max [] = Inl ValueError"
| "py_max (k # ks) = Inr (foldl max k ks)"

text \<open>\<open>c * n\<close> for a configured \<open>c\<close> and a Python integer \<open>n\<close>.\<close>

fun py_mul_int :: "yaml \<Rightarrow> nat \<Rightarrow> exn + yaml" where
  "py_mul_int (YNum c) n = Inr (YNum (fmul c (Fin (real n))))"
| "py_mul_int (YStr s) n = Inr (YStr (concat (replicate n s)))"
| "py_mul_int YNone n = Inl TypeError"

text \<open>\<open>total_err + p\<close>: only a float and a number add.\<close>

fun py_add :: "mse_result \<Rightarrow> yaml \<Rightarrow> exn + mse_result" where
  "py_add (Total t) (YNum p) = Inr (Total (fadd t p))"
| "py_add _ _ = Inl TypeError"

text \<open>\<open>eval_fitness\<close>; the 1-tuple it returns is a list of one element.\<close>

definition eval_fitness ::
  "extern \<Rightarrow> individual \<Rightarrow> vec list \<Rightarrow> vec list \<Rightarrow> vec list \<Rightarrow> SimplicialComplex \<Rightarrow>
   int list \<Rightarrow> pyfloat \<Rightarrow> CochainP0 \<Rightarrow> (string \<rightharpoonup> yaml) \<Rightarrow> Toolbox \<Rightarrow> exn + mse_result list" where
  "eval_fitness ex ind X y bvalues S bnodes gamma u_0 penalty toolbox =
     (case eval_MSE ex ind X y bvalues S bnodes gamma u_0 toolbox False of
        Inl e \<Rightarrow> Inl e
      | Inr total_err \<Rightarrow>
          (case py_getitem penalty ''method'' of
             Inl e \<Rightarrow> Inl e
           | Inr m \<Rightarrow>
               if m = YStr ''primitive'' then
                 (let indstr = str_of ex ind
                  in case py_getitem penalty ''reg_param'' of
                       Inl e \<Rightarrow> Inl e
                     | Inr c \<Rightarrow>
                         (case py_max (map (str_count indstr) (primitives_strings ex)) of
                            Inl e \<Rightarrow> Inl e
                          | Inr k \<Rightarrow>
                              (case py_mul_int c k of
                                 Inl e \<Rightarrow> Inl e
                               | Inr p \<Rightarrow>
                                   (case py_add total_err p of
                                      Inl e \<Rightarrow> Inl e
                                    | Inr objval \<Rightarrow> Inr [objval]))))
               else if m = YStr ''length'' then
                 (case py_getitem penalty ''reg_param'' of
                    Inl e \<Rightarrow> Inl e
                  | Inr c \<Rightarrow>
                      (case py_mul_int c (length ind) of
                         Inl e \<Rightarrow> Inl e
                       | Inr p \<Rightarrow>
                           (case py_add total_err p of
                              Inl e \<Rightarrow> Inl e
                            | Inr objval \<Rightarrow> Inr [objval])))
               else Inr [total_err]))"

section \<open>The set-up of a run\<close>

text \<open>
  NumPy's global generator, from which \<open>stgp_poisson\<close> draws the initial guess. Its
  state is the sequence of uniform draws the generator is going to produce and the
  number of draws already consumed.
\<close>

record np_random =
  rng_draws :: "nat \<Rightarrow> real"
  rng_pos :: nat

text \<open>\<open>np.random.rand(n)\<close>: the next \<open>n\<close> draws, and the generator advanced by \<open>n\<close>.\<close>

definition np_random_rand :: "np_random \<Rightarrow> nat \<Rightarrow> vec \<times> np_random" where
  "np_random_rand g n =
     (map (\<lambda>k. Fin (rng_draws g (rng_pos g + k))) [0..<n], g\<lparr>rng_pos := rng_pos g + n\<rparr>)"

text \<open>
  The initial guess of \<open>stgp_poisson\<close>:
  \<open>u_0_vec = 0.01*np.random.rand(num_nodes); u_0 = C.CochainP0(S, u_0_vec)\<close>.
\<close>

definition initial_guess :: "SimplicialComplex \<Rightarrow> np_random \<Rightarrow> CochainP0 \<times> np_random" where
  "initial_guess S g =
     (let (r, g') = np_random_rand g (num_nodes S);
          u_0_vec = map (fmul (Fin 0.01)) r
      in (\<lparr>cochain_complex = S, coeffs = u_0_vec\<rparr>, g'))"

section \<open>Notions of the specification\<close>

text \<open>
  The squared Euclidean distance of two fields, the clamping of a per-sample error at
  100, and the mean of a list of errors, as the specification words them.
\<close>

definition sq_dist :: "vec \<Rightarrow> vec \<Rightarrow> pyfloat" where
  "sq_dist a b = np_sum (map2 (\<lambda>u v. fpow2 (fsub u v)) a b)"

definition clamp_err :: "pyfloat \<Rightarrow> pyfloat" where
  "clamp_err e = (if e = NaN \<or> fgt e (Fin 100) then Fin 100 else e)"

fun fdiv_count :: "pyfloat \<Rightarrow> nat \<Rightarrow> pyfloat" where
  "fdiv_count (Fin t) n = Fin (t / real n)"
| "fdiv_count PInf n = PInf"
| "fdiv_count NInf n = NInf"
| "fdiv_count NaN n = NaN"

definition mean_err :: "pyfloat list \<Rightarrow> pyfloat" where
  "mean_err es = fdiv_count (np_sum es) (length es)"

text \<open>The boundary term \<open>0.5 \<cdot> gamma \<cdot> \<Sum> (vec_x[bnodes] - vec_bvalues)\<^sup>2\<close>.\<close>

definition boundary_penalty :: "pyfloat \<Rightarrow> int list \<Rightarrow> vec \<Rightarrow> vec \<Rightarrow> pyfloat" where
  "boundary_penalty gamma bnodes vec_x vec_bvalues =
     fmul (fmul (Fin 0.5) gamma)
       (np_sum (map2 (\<lambda>b v. fpow2 (fsub (vec_x ! nat b) v)) bnodes vec_bvalues))"

text \<open>
  The penalty term of the fitness for a penalty method and coefficient: the
  coefficient times the greatest number of occurrences of a tracked primitive name in
  the string of the individual, or times the number of nodes, or nothing.
\<close>

definition penalty_term :: "extern \<Rightarrow> individual \<Rightarrow> string \<Rightarrow> pyfloat \<Rightarrow> pyfloat" where
  "penalty_term ex ind m c =
     (if m = ''primitive''
      then fmul c (Fin (real (Max (set (map (str_count (str_of ex ind)) (primitives_strings ex))))))
      else if m = ''length'' then fmul c (Fin (real (length ind)))
      else Fin 0)"

text \<open>
  The objective function \<open>eval_MSE\<close> builds for an individual, and the field the inner
  solve returns for one sample: the \<open>x\<close> of the optimizer's result.
\<close>

definition bound_objective ::
  "SimplicialComplex \<Rightarrow> int list \<Rightarrow> pyfloat \<Rightarrow> energy \<Rightarrow> individual \<Rightarrow> ObjFunction" where
  "bound_objective S bnodes gamma energy_func ind =
     set_energy_func (ObjFunction_init S bnodes gamma) energy_func ind"

definition inner_solve ::
  "extern \<Rightarrow> ObjFunction \<Rightarrow> CochainP0 \<Rightarrow> vec \<Rightarrow> vec \<Rightarrow> exn + OptimizeResult" where
  "inner_solve ex obj u_0 vec_y vec_bvalues =
     minimize ex (total_energy obj) (coeffs u_0) (vec_y, vec_bvalues)
       (jit_grad ex (total_energy obj))"

definition solved_field :: "extern \<Rightarrow> ObjFunction \<Rightarrow> CochainP0 \<Rightarrow> vec \<Rightarrow> vec \<Rightarrow> vec" where
  "solved_field ex obj u_0 vec_y vec_bvalues =
     res_x (projr (inner_solve ex obj u_0 vec_y vec_bvalues))"

text \<open>A float that is not negative: a sum of squares is one.\<close>

fun nonneg_or_nan :: "pyfloat \<Rightarrow> bool" where
  "nonneg_or_nan (Fin r) = (0 \<le> r)"
| "nonneg_or_nan PInf = True"
| "nonneg_or_nan NInf = False"
| "nonneg_or_nan NaN = True"

section \<open>Concrete services for the examples\<close>

text \<open>
  An optimizer that evaluates the objective once, at the starting point, and stops
  there without reporting convergence; an exception of the objective passes through.
\<close>

definition probe_minimize ::
  "objective \<Rightarrow> vec \<Rightarrow> vec \<times> vec \<Rightarrow> jacobian \<Rightarrow> exn + OptimizeResult" where
  "probe_minimize f x0 args jac =
     (case f x0 (fst args) (snd args) of
        Inl e \<Rightarrow> Inl e
      | Inr v \<Rightarrow> Inr \<lparr>res_x = x0, res_success = False\<rparr>)"

definition zero_grad :: "objective \<Rightarrow> jacobian" where
  "zero_grad f = (\<lambda>x vec_y vec_bvalues. Inr (map (\<lambda>v. Fin 0) x))"

fun node_name :: "node \<Rightarrow> string" where
  "node_name (Primitive s k) = s"
| "node_name (Terminal s) = s"

definition names_str :: "individual \<Rightarrow> string" where
  "names_str ind = concat (map node_name ind)"

definition probe_extern :: extern where
  "probe_extern =
     \<lparr>jit_grad = zero_grad, minimize = probe_minimize, str_of = names_str,
      primitives_strings = [''add'', ''sub'']\<rparr>"

definition zero_energy :: energy where
  "zero_energy c fk = Inr (Fin 0)"

definition raising_energy :: energy where
  "raising_energy c fk = Inl TypeError"

definition const_toolbox :: "energy \<Rightarrow> Toolbox" where
  "const_toolbox f = \<lparr>compile = (\<lambda>ind. Inr f)\<rparr>"

definition dot_energy :: energy where
  "dot_energy c fk = Inr (np_sum (map2 fmul (coeffs c) (coeffs fk)))"

text \<open>A mesh of two nodes, node 0 on the boundary, and a partition of three samples.\<close>

definition ex_S :: SimplicialComplex where
  "ex_S = \<lparr>num_nodes = 2\<rparr>"

definition ex_u0 :: CochainP0 where
  "ex_u0 = \<lparr>cochain_complex = ex_S, coeffs = [Fin 0, Fin 0]\<rparr>"

definition ex_X :: "vec list" where
  "ex_X = [[Fin 0, Fin 11], [NaN, Fin 0], [Fin 1, Fin 0]]"

definition ex_y :: "vec list" where
  "ex_y = [[Fin 1, Fin 1], [Fin 2, Fin 2], [Fin 3, Fin 3]]"

definition ex_bvalues :: "vec list" where
  "ex_bvalues = [[Fin 0], [Fin 0], [Fin 0]]"

definition ex_ind :: individual where
  "ex_ind = [Primitive ''add'' 2, Terminal ''u'', Terminal ''f'']"

definition ex_ind2 :: individual where
  "ex_ind2 = [Primitive ''add'' 2, Primitive ''add'' 2, Terminal ''u'', Terminal ''f'',
              Primitive ''sub'' 2, Terminal ''u'', Terminal ''f'']"

definition ex_u1 :: CochainP0 where
  "ex_u1 = \<lparr>cochain_complex = ex_S, coeffs = [Fin 0.25, Fin 0.5]\<rparr>"

text \<open>A generator whose draws are all \<open>1/2\<close>.\<close>

definition ex_rng :: np_random where
  "ex_rng = \<lparr>rng_draws = (\<lambda>k. 1 / 2), rng_pos = 0\<rparr>"

text \<open>Targets of which the first is far from the initial guess \<open>ex_u0\<close>.\<close>

definition ex_Xfar :: "vec list" where
  "ex_Xfar = [[Fin 0, Fin 11], [Fin 0, Fin 0], [Fin 0, Fin 0]]"

text \<open>An energy that raises on the second sample of \<open>ex_y\<close> only.\<close>

definition picky_energy :: energy where
  "picky_energy c fk = (if coeffs fk = [Fin 2, Fin 2] then Inl TypeError else Inr (Fin 0))"

section \<open>Float arithmetic\<close>

lemma fadd_assoc: "fadd (fadd a b) c = fadd a (fadd b c)"
  by (cases a; cases b; cases c) simp_all

lemma fadd_zero_left [simp]: "fadd (Fin 0) a = a"
  by (cases a) simp_all

lemma fadd_zero_right [simp]: "fadd a (Fin 0) = a"
  by (cases a) simp_all

lemma nonneg_fpow2: "nonneg_or_nan (fpow2 a)"
  by (cases a) (simp_all add: fpow2_def)

lemma nonneg_fadd: "nonneg_or_nan a \<Longrightarrow> nonneg_or_nan b \<Longrightarrow> nonneg_or_nan (fadd a b)"
  by (cases a; cases b) simp_all

lemma nonneg_sum_squares: "nonneg_or_nan (np_sum (map fpow2 d))"
  by (induction d) (simp_all add: np_sum_def nonneg_fpow2 nonneg_fadd)

lemma fpow2_fsqrt: "nonneg_or_nan v \<Longrightarrow> fpow2 (fsqrt v) = v"
  by (cases v) (simp_all add: fpow2_def)

lemma norm_sq_dist:
  "length a = length b \<Longrightarrow> np_sub a b = Inr d \<Longrightarrow> fpow2 (norm_vec d) = sq_dist a b"
proof -
  assume len: "length a = length b" and sub: "np_sub a b = Inr d"
  from len sub have d: "d = map2 fsub a b" by (simp add: np_sub_def)
  have h: "map fpow2 (map2 fsub a b) = map2 (\<lambda>u v. fpow2 (fsub u v)) a b"
    by (induction a b rule: list_induct2') simp_all
  have "np_sum (map fpow2 d) = sq_dist a b"
    unfolding d sq_dist_def h ..
  moreover have "fpow2 (norm_vec d) = np_sum (map fpow2 d)"
    unfolding norm_vec_def by (rule fpow2_fsqrt) (rule nonneg_sum_squares)
  ultimately show ?thesis by simp
qed

lemma all_less_Suc: "(\<forall>i<Suc n. P i) \<longleftrightarrow> (\<forall>i<n. P i) \<and> P n"
  by (auto simp: less_Suc_eq)

section \<open>The objective function: properties\<close>

lemma np_take_valid:
  "\<forall>b\<in>set idx. 0 \<le> b \<and> b < int (length a) \<Longrightarrow> np_take a idx = Inr (map (\<lambda>b. a ! nat b) idx)"
  by (induction idx) (auto simp: np_index_def)

lemma total_energy_char:
  assumes "\<forall>b\<in>set (obj_bnodes self). 0 \<le> b \<and> b < int (length vec_x)"
    and "length vec_bvalues = length (obj_bnodes self)"
  shows "total_energy self vec_x vec_y vec_bvalues =
           (case obj_energy_func self of
              None \<Rightarrow> Inl AttributeError
            | Some f \<Rightarrow>
                (case f \<lparr>cochain_complex = obj_S self, coeffs = vec_x\<rparr>
                        \<lparr>cochain_complex = obj_S self, coeffs = vec_y\<rparr> of
                   Inl e \<Rightarrow> Inl e
                 | Inr en \<Rightarrow> Inr (fadd en
                     (boundary_penalty (obj_gamma self) (obj_bnodes self) vec_x vec_bvalues))))"
proof -
  have take: "np_take vec_x (obj_bnodes self) = Inr (map (\<lambda>b. vec_x ! nat b) (obj_bnodes self))"
    using assms(1) by (rule np_take_valid)
  have sub: "np_sub (map (\<lambda>b. vec_x ! nat b) (obj_bnodes self)) vec_bvalues =
               Inr (map2 fsub (map (\<lambda>b. vec_x ! nat b) (obj_bnodes self)) vec_bvalues)"
    using assms(2) by (simp add: np_sub_def)
  have sq: "map fpow2 (map2 fsub (map (\<lambda>b. vec_x ! nat b) bs) vs) =
              map2 (\<lambda>b v. fpow2 (fsub (vec_x ! nat b) v)) bs vs" for bs vs
    by (induction bs vs rule: list_induct2') simp_all
  show ?thesis
    by (simp add: total_energy_def take sub Let_def sq boundary_penalty_def
        split: option.splits sum.splits del: map_map)
qed

text \<open>
  Claim C2. When the bound energy returns \<open>en\<close> on the cochains of \<open>vec_x\<close> and
  \<open>vec_y\<close>, the boundary nodes are nodes of the mesh and there is one boundary value
  per boundary node, \<open>total_energy\<close> returns \<open>en\<close> plus
  \<open>0.5 \<cdot> gamma \<cdot> \<Sum> (vec_x[bnodes] - vec_bvalues)\<^sup>2\<close> and nothing else. The method is
  a function of the instance: it leaves the bound energy and the other fields as they are.
\<close>

theorem total_energy_value:
  assumes "obj_energy_func self = Some f"
    and "f \<lparr>cochain_complex = obj_S self, coeffs = vec_x\<rparr>
           \<lparr>cochain_complex = obj_S self, coeffs = vec_y\<rparr> = Inr en"
    and "\<forall>b\<in>set (obj_bnodes self). 0 \<le> b \<and> b < int (length vec_x)"
    and "length vec_bvalues = length (obj_bnodes self)"
  shows "total_energy self vec_x vec_y vec_bvalues =
           Inr (fadd en (boundary_penalty (obj_gamma self) (obj_bnodes self) vec_x vec_bvalues))"
  using total_energy_char [OF assms(3,4), of vec_y] assms(1,2) by simp

theorem total_energy_value_witness:
  "total_energy (bound_objective ex_S [0] (Fin 1000) dot_energy ex_ind)
     [Fin 1, Fin 2] [Fin 3, Fin 4] [Fin 3] = Inr (Fin 2011)"
  using total_energy_value [of "bound_objective ex_S [0] (Fin 1000) dot_energy ex_ind"
      dot_energy "[Fin 1, Fin 2]" "[Fin 3, Fin 4]" "Fin 11" "[Fin 3]"]
  by (simp add: bound_objective_def set_energy_func_def ObjFunction_init_def dot_energy_def
      np_sum_def boundary_penalty_def fpow2_def fsub_def)

section \<open>The error over a partition: properties\<close>

lemma eval_MSE_loop_char:
  assumes "\<forall>p\<in>set ps. fst p < length bvalues \<and> fst p < length X \<and>
             (\<exists>res. minimize ex (total_energy obj) (coeffs u_0) (snd p, bvalues ! fst p) jac = Inr res
                    \<and> length (res_x res) = length (X ! fst p))"
  shows "eval_MSE_loop ex obj jac X bvalues u_0 rb ps (t, sols) =
           Inr (fadd t (np_sum (map (\<lambda>p. clamp_err (sq_dist
                   (res_x (projr (minimize ex (total_energy obj) (coeffs u_0)
                      (snd p, bvalues ! fst p) jac))) (X ! fst p))) ps)),
                if rb then sols @ map (\<lambda>p. res_x (projr (minimize ex (total_energy obj) (coeffs u_0)
                      (snd p, bvalues ! fst p) jac))) ps
                else sols)"
  using assms
proof (induction ps arbitrary: t sols)
  case Nil
  then show ?case by (simp add: np_sum_def) 
next
  case (Cons p ps)
  obtain i vec_y where p: "p = (i, vec_y)" by (cases p)
  from Cons.prems p obtain res where
    i: "i < length bvalues" "i < length X" and
    res: "minimize ex (total_energy obj) (coeffs u_0) (vec_y, bvalues ! i) jac = Inr res" and
    len: "length (res_x res) = length (X ! i)"
    by auto
  from len obtain d where d: "np_sub (res_x res) (X ! i) = Inr d"
    by (simp add: np_sub_def)
  have e: "fpow2 (norm_vec d) = sq_dist (res_x res) (X ! i)"
    using len d by (rule norm_sq_dist)
  have rest: "\<forall>p\<in>set ps. fst p < length bvalues \<and> fst p < length X \<and>
             (\<exists>res. minimize ex (total_energy obj) (coeffs u_0) (snd p, bvalues ! fst p) jac = Inr res
                    \<and> length (res_x res) = length (X ! fst p))"
    using Cons.prems by simp
  show ?case
    using i res d e Cons.IH [OF rest]
    by (simp add: p np_row_def Let_def clamp_err_def isnan_def np_sum_def fadd_assoc disj_commute)
qed

lemma enumerate_rows_nth: "enumerate_rows y = map (\<lambda>i. (i, y ! i)) [0..<length y]"
  unfolding enumerate_rows_def by (rule nth_equalityI) simp_all

lemma fmul_recip: "0 < n \<Longrightarrow> fmul v (Fin (1 / real n)) = fdiv_count v n"
  by (cases v) (simp_all add: inf_of_sign_def)

lemma eval_MSE_char:
  assumes comp: "compile toolbox ind = Inr energy_func"
    and obj: "obj = bound_objective S bnodes gamma energy_func ind"
    and rows: "length y \<le> length bvalues" "length y \<le> length X"
    and solves: "\<forall>i<length y. \<exists>res. inner_solve ex obj u_0 (y ! i) (bvalues ! i) = Inr res
                   \<and> length (res_x res) = length (X ! i)"
  shows "eval_MSE ex ind X y bvalues S bnodes gamma u_0 toolbox rb =
     (if rb then Inr (BestSols (map (\<lambda>i. solved_field ex obj u_0 (y ! i) (bvalues ! i)) [0..<length y]))
      else if length X = 0 then Inl ZeroDivisionError
      else Inr (Total (fmul (np_sum (map (\<lambda>i. clamp_err (sq_dist
              (solved_field ex obj u_0 (y ! i) (bvalues ! i)) (X ! i))) [0..<length y]))
             (Fin (1 / real (length X))))))"
proof -
  let ?jac = "jit_grad ex (total_energy obj)"
  have pre: "\<forall>p\<in>set (enumerate_rows y). fst p < length bvalues \<and> fst p < length X \<and>
             (\<exists>res. minimize ex (total_energy obj) (coeffs u_0) (snd p, bvalues ! fst p) ?jac = Inr res
                    \<and> length (res_x res) = length (X ! fst p))"
    using rows solves by (auto simp: enumerate_rows_nth inner_solve_def)
  have loop: "eval_MSE_loop ex obj ?jac X bvalues u_0 rb (enumerate_rows y) (Fin 0, []) =
      Inr (np_sum (map (\<lambda>i. clamp_err (sq_dist
              (solved_field ex obj u_0 (y ! i) (bvalues ! i)) (X ! i))) [0..<length y]),
           if rb then map (\<lambda>i. solved_field ex obj u_0 (y ! i) (bvalues ! i)) [0..<length y]
           else [])"
    unfolding eval_MSE_loop_char [OF pre]
    by (simp add: enumerate_rows_nth comp_def solved_field_def inner_solve_def)
  have bound: "set_energy_func (ObjFunction_init S bnodes gamma) energy_func ind = obj"
    by (simp add: obj bound_objective_def)
  show ?thesis
    unfolding eval_MSE_def comp by (simp add: Let_def bound loop)
qed

lemma probe_solve_zero_energy:
  assumes "length bv = length bnodes" and "\<forall>b\<in>set bnodes. 0 \<le> b \<and> b < int (length (coeffs u_0))"
  shows "inner_solve probe_extern (bound_objective S bnodes gamma zero_energy ind) u_0 vy bv =
           Inr \<lparr>res_x = coeffs u_0, res_success = False\<rparr>"
  using assms
  by (simp add: inner_solve_def probe_extern_def probe_minimize_def total_energy_def
      np_take_valid np_sub_def bound_objective_def set_energy_func_def ObjFunction_init_def
      zero_energy_def Let_def)

text \<open>
  Claim C1. For a partition of at least one sample (the rows of \<open>X\<close>, \<open>y\<close> and
  \<open>bvalues\<close> aligned) on which every inner solve returns a field of the length of its
  target, \<open>eval_MSE\<close> without per-sample output returns the mean, over all samples, of
  the squared Euclidean distance between the solved field and the target, every
  distance that is NaN or greater than 100 replaced by 100.
\<close>

theorem eval_MSE_mean:
  assumes "compile toolbox ind = Inr energy_func"
    and "obj = bound_objective S bnodes gamma energy_func ind"
    and "X \<noteq> []" and "length y = length X" and "length bvalues = length X"
    and "\<forall>i<length X. \<exists>res. inner_solve ex obj u_0 (y ! i) (bvalues ! i) = Inr res
                   \<and> length (res_x res) = length (X ! i)"
  shows "eval_MSE ex ind X y bvalues S bnodes gamma u_0 toolbox False =
           Inr (Total (mean_err (map (\<lambda>i. clamp_err (sq_dist
              (solved_field ex obj u_0 (y ! i) (bvalues ! i)) (X ! i))) [0..<length X])))"
proof -
  have "eval_MSE ex ind X y bvalues S bnodes gamma u_0 toolbox False =
          Inr (Total (fmul (np_sum (map (\<lambda>i. clamp_err (sq_dist
              (solved_field ex obj u_0 (y ! i) (bvalues ! i)) (X ! i))) [0..<length X]))
             (Fin (1 / real (length X)))))"
    using eval_MSE_char [OF assms(1,2), of y bvalues X ex u_0 False] assms(3-6) by simp
  moreover have "0 < length X" using assms(3) by simp
  ultimately show ?thesis
    by (simp add: mean_err_def fmul_recip)
qed

theorem eval_MSE_mean_witness:
  "eval_MSE probe_extern ex_ind ex_X ex_y ex_bvalues ex_S [0] (Fin 1000) ex_u0
     (const_toolbox zero_energy) False = Inr (Total (Fin 67))"
proof -
  let ?obj = "bound_objective ex_S [0] (Fin 1000) zero_energy ex_ind"
  have solve: "inner_solve probe_extern ?obj ex_u0 vy [v] =
                 Inr \<lparr>res_x = [Fin 0, Fin 0], res_success = False\<rparr>" for vy v
    using probe_solve_zero_energy [of "[v]" "[0]" ex_u0] by (simp add: ex_u0_def)
  have h: "\<forall>i<length ex_X. \<exists>res. inner_solve probe_extern ?obj ex_u0 (ex_y ! i) (ex_bvalues ! i) = Inr res
                   \<and> length (res_x res) = length (ex_X ! i)"
    by (simp add: ex_X_def ex_y_def ex_bvalues_def all_less_Suc solve)
  show ?thesis
    using eval_MSE_mean [of "const_toolbox zero_energy" ex_ind zero_energy ?obj ex_S "[0]"
        "Fin 1000" ex_X ex_y ex_bvalues probe_extern ex_u0] h
    by (simp add: const_toolbox_def solved_field_def solve ex_X_def ex_y_def ex_bvalues_def
        mean_err_def clamp_err_def sq_dist_def np_sum_def fpow2_def fsub_def)
qed

section \<open>The fitness: properties\<close>

lemma py_max_Max: "ks \<noteq> [] \<Longrightarrow> py_max ks = Inr (Max (set ks))"
proof (cases ks)
  case Nil
  assume "ks \<noteq> []"
  with Nil show ?thesis by simp
next
  case (Cons k ks')
  have "(\<lambda>x a. max a x) = (max :: nat \<Rightarrow> nat \<Rightarrow> nat)"
    by (intro ext) (simp add: max.commute)
  then have "foldl max k ks' = fold max ks' k"
    by (simp add: foldl_conv_fold)
  then show ?thesis
    using Cons Max.set_eq_fold [of k ks'] by simp
qed

lemma ex_partition_error:
  "eval_MSE probe_extern ind ex_X ex_y ex_bvalues ex_S [0] (Fin 1000) ex_u0
     (const_toolbox zero_energy) False = Inr (Total (Fin 67))"
proof -
  let ?obj = "bound_objective ex_S [0] (Fin 1000) zero_energy ind"
  have solve: "inner_solve probe_extern ?obj ex_u0 vy [v] =
                 Inr \<lparr>res_x = [Fin 0, Fin 0], res_success = False\<rparr>" for vy v
    using probe_solve_zero_energy [of "[v]" "[0]" ex_u0] by (simp add: ex_u0_def)
  have h: "\<forall>i<length ex_y. \<exists>res. inner_solve probe_extern ?obj ex_u0 (ex_y ! i) (ex_bvalues ! i) = Inr res
                   \<and> length (res_x res) = length (ex_X ! i)"
    by (simp add: ex_X_def ex_y_def ex_bvalues_def all_less_Suc solve)
  have c: "compile (const_toolbox zero_energy) ind = Inr zero_energy"
    by (simp add: const_toolbox_def)
  show ?thesis
    using eval_MSE_char [OF c refl _ _ h, where rb = False]
    by (simp add: solved_field_def solve ex_X_def ex_y_def ex_bvalues_def
        clamp_err_def sq_dist_def np_sum_def fpow2_def fsub_def)
qed

lemma ex_ind2_length: "length ex_ind2 = 7"
  by (simp add: ex_ind2_def)

lemma ex_ind2_counts:
  "str_count (names_str ex_ind2) ''add'' = 2" "str_count (names_str ex_ind2) ''sub'' = 1"
  by code_simp+

text \<open>
  Claim C4. When the error of the partition is \<open>t\<close> and the configured method is
  \<open>primitive\<close>, \<open>length\<close> or \<open>none\<close>, \<open>eval_fitness\<close> returns the 1-tuple of \<open>t\<close>
  plus exactly one penalty term: for \<open>primitive\<close> the coefficient times the greatest
  number of occurrences of a tracked primitive name in the string of the individual,
  for \<open>length\<close> the coefficient times the number of nodes, for \<open>none\<close> zero. The
  coefficient is read for the first two methods only, and the list of tracked names is
  not empty when the method is \<open>primitive\<close>.
\<close>

theorem eval_fitness_penalty:
  assumes "eval_MSE ex ind X y bvalues S bnodes gamma u_0 toolbox False = Inr (Total t)"
    and "penalty ''method'' = Some (YStr m)"
    and "m = ''primitive'' \<or> m = ''length'' \<or> m = ''none''"
    and "m \<noteq> ''none'' \<longrightarrow> penalty ''reg_param'' = Some (YNum c)"
    and "m = ''primitive'' \<longrightarrow> primitives_strings ex \<noteq> []"
  shows "eval_fitness ex ind X y bvalues S bnodes gamma u_0 penalty toolbox =
           Inr [Total (fadd t (penalty_term ex ind m c))]"
proof -
  consider (prim) "m = ''primitive''" | (len) "m = ''length''" | (none) "m = ''none''"
    using assms(3) by blast
  then show ?thesis
  proof cases
    case prim
    with assms(5) have "map (str_count (str_of ex ind)) (primitives_strings ex) \<noteq> []" by simp
    then have mx: "py_max (map (str_count (str_of ex ind)) (primitives_strings ex)) =
               Inr (Max (set (map (str_count (str_of ex ind)) (primitives_strings ex))))"
      by (rule py_max_Max)
    from prim assms(4) have "penalty ''reg_param'' = Some (YNum c)" by simp
    then show ?thesis
      using prim assms(1,2) mx
      by (simp add: eval_fitness_def py_getitem_def penalty_term_def Let_def)
  next
    case len
    with assms(4) have "penalty ''reg_param'' = Some (YNum c)" by simp
    then show ?thesis
      using len assms(1,2)
      by (simp add: eval_fitness_def py_getitem_def penalty_term_def)
  next
    case none
    then show ?thesis
      using assms(1,2)
      by (simp add: eval_fitness_def py_getitem_def penalty_term_def)
  qed
qed

theorem eval_fitness_penalty_witness:
  "eval_fitness probe_extern ex_ind2 ex_X ex_y ex_bvalues ex_S [0] (Fin 1000) ex_u0
     [''method'' \<mapsto> YStr ''primitive'', ''reg_param'' \<mapsto> YNum (Fin 0.5)]
     (const_toolbox zero_energy) = Inr [Total (Fin 68)]
   \<and> eval_fitness probe_extern ex_ind2 ex_X ex_y ex_bvalues ex_S [0] (Fin 1000) ex_u0
     [''method'' \<mapsto> YStr ''length'', ''reg_param'' \<mapsto> YNum (Fin 0.5)]
     (const_toolbox zero_energy) = Inr [Total (Fin 70.5)]
   \<and> eval_fitness probe_extern ex_ind2 ex_X ex_y ex_bvalues ex_S [0] (Fin 1000) ex_u0
     [''method'' \<mapsto> YStr ''none''] (const_toolbox zero_energy) = Inr [Total (Fin 67)]"
  using eval_fitness_penalty [OF ex_partition_error, of
      "[''method'' \<mapsto> YStr ''primitive'', ''reg_param'' \<mapsto> YNum (Fin 0.5)]" "''primitive''" "Fin 0.5" ex_ind2]
    eval_fitness_penalty [OF ex_partition_error, of
      "[''method'' \<mapsto> YStr ''length'', ''reg_param'' \<mapsto> YNum (Fin 0.5)]" "''length''" "Fin 0.5" ex_ind2]
    eval_fitness_penalty [OF ex_partition_error, of
      "[''method'' \<mapsto> YStr ''none'']" "''none''" "Fin 0.5" ex_ind2]
  by (simp add: penalty_term_def probe_extern_def ex_ind2_counts ex_ind2_length)

text \<open>
  Claim C10. When the configured method is neither \<open>primitive\<close> nor \<open>length\<close>, a
  misspelled or unknown value included, \<open>eval_fitness\<close> adds no penalty and raises no
  configuration error: it returns the 1-tuple of the error of the partition, and
  raises only what \<open>eval_MSE\<close> raises.
\<close>

theorem eval_fitness_unknown_method:
  assumes "penalty ''method'' = Some m"
    and "m \<noteq> YStr ''primitive''" and "m \<noteq> YStr ''length''"
  shows "eval_fitness ex ind X y bvalues S bnodes gamma u_0 penalty toolbox =
           (case eval_MSE ex ind X y bvalues S bnodes gamma u_0 toolbox False of
              Inl e \<Rightarrow> Inl e
            | Inr total_err \<Rightarrow> Inr [total_err])"
  using assms by (simp add: eval_fitness_def py_getitem_def split: sum.splits)

theorem eval_fitness_unknown_method_witness:
  "eval_fitness probe_extern ex_ind2 ex_X ex_y ex_bvalues ex_S [0] (Fin 1000) ex_u0
     [''method'' \<mapsto> YStr ''lenght'', ''reg_param'' \<mapsto> YNum (Fin 0.5)]
     (const_toolbox zero_energy) = Inr [Total (Fin 67)]"
  using eval_fitness_unknown_method [of
      "[''method'' \<mapsto> YStr ''lenght'', ''reg_param'' \<mapsto> YNum (Fin 0.5)]" "YStr ''lenght''"
      probe_extern ex_ind2 ex_X ex_y ex_bvalues ex_S "[0]" "Fin 1000" ex_u0 "const_toolbox zero_energy"]
  by (simp add: ex_partition_error)

section \<open>The inner solves\<close>

lemma initial_guess_length: "length (coeffs (fst (initial_guess S g))) = num_nodes S"
  by (simp add: initial_guess_def np_random_rand_def)

text \<open>
  Claim C6. Whatever the optimizer is, every inner solve of \<open>eval_MSE\<close> is one call
  of it on the same starting point \<open>u_0.coeffs\<close>, for the sample's \<open>vec_y\<close> and
  boundary values: no call starts from the result of another. The \<open>x\<close> of each
  result is what is kept, whether the result reports convergence or not, and no solve
  is repeated: with per-sample output the list returned is exactly these points.
\<close>

theorem eval_MSE_fixed_initial_guess:
  assumes "compile toolbox ind = Inr energy_func"
    and "obj = bound_objective S bnodes gamma energy_func ind"
    and "length y \<le> length bvalues" and "length y \<le> length X"
    and "\<forall>i<length y. \<exists>res.
           minimize ex (total_energy obj) (coeffs u_0) (y ! i, bvalues ! i)
             (jit_grad ex (total_energy obj)) = Inr res
           \<and> length (res_x res) = length (X ! i)"
  shows "eval_MSE ex ind X y bvalues S bnodes gamma u_0 toolbox True =
           Inr (BestSols (map (\<lambda>i. res_x (projr
              (minimize ex (total_energy obj) (coeffs u_0) (y ! i, bvalues ! i)
                 (jit_grad ex (total_energy obj))))) [0..<length y]))"
proof -
  have solves: "\<forall>i<length y. \<exists>res. inner_solve ex obj u_0 (y ! i) (bvalues ! i) = Inr res
                   \<and> length (res_x res) = length (X ! i)"
    using assms(5) by (simp add: inner_solve_def)
  show ?thesis
    using eval_MSE_char [OF assms(1,2,3,4) solves, where rb = True]
    by (simp add: solved_field_def inner_solve_def)
qed

theorem eval_MSE_fixed_initial_guess_witness:
  "eval_MSE probe_extern ex_ind ex_X ex_y ex_bvalues ex_S [0] (Fin 1000) ex_u1
     (const_toolbox zero_energy) True =
     Inr (BestSols [[Fin 0.25, Fin 0.5], [Fin 0.25, Fin 0.5], [Fin 0.25, Fin 0.5]])"
proof -
  let ?obj = "bound_objective ex_S [0] (Fin 1000) zero_energy ex_ind"
  have solve: "minimize probe_extern (total_energy ?obj) (coeffs ex_u1) (vy, [v])
                 (jit_grad probe_extern (total_energy ?obj)) =
                 Inr \<lparr>res_x = [Fin 0.25, Fin 0.5], res_success = False\<rparr>" for vy v
    using probe_solve_zero_energy [of "[v]" "[0]" ex_u1 ex_S "Fin 1000" ex_ind vy]
    by (simp add: ex_u1_def inner_solve_def)
  have h: "\<forall>i<length ex_y. \<exists>res.
           minimize probe_extern (total_energy ?obj) (coeffs ex_u1) (ex_y ! i, ex_bvalues ! i)
             (jit_grad probe_extern (total_energy ?obj)) = Inr res
           \<and> length (res_x res) = length (ex_X ! i)"
    by (simp add: ex_X_def ex_y_def ex_bvalues_def all_less_Suc solve)
  have c: "compile (const_toolbox zero_energy) ex_ind = Inr zero_energy"
    by (simp add: const_toolbox_def)
  show ?thesis
    using eval_MSE_fixed_initial_guess [OF c refl _ _ h]
    by (simp add: solve ex_X_def ex_y_def ex_bvalues_def)
qed

text \<open>
  Claim C8. With per-sample output enabled, on a partition of \<open>n\<close> samples whose
  targets are fields on the mesh, with an initial guess of one value per mesh node
  and an optimizer that returns a point of the shape of its starting point,
  \<open>eval_MSE\<close> returns a list of exactly \<open>n\<close> solved fields, the \<open>i\<close>-th one that
  of the \<open>i\<close>-th sample, each of length the number of nodes of the mesh.
\<close>

theorem eval_MSE_best_sols_shape:
  assumes "compile toolbox ind = Inr energy_func"
    and "obj = bound_objective S bnodes gamma energy_func ind"
    and "length (coeffs u_0) = num_nodes S"
    and "length y \<le> length bvalues" and "length y \<le> length X"
    and "\<forall>i<length y. length (X ! i) = num_nodes S"
    and "\<forall>i<length y. \<exists>res. inner_solve ex obj u_0 (y ! i) (bvalues ! i) = Inr res
                   \<and> length (res_x res) = length (coeffs u_0)"
  shows "\<exists>sols. eval_MSE ex ind X y bvalues S bnodes gamma u_0 toolbox True = Inr (BestSols sols)
           \<and> length sols = length y
           \<and> (\<forall>i<length y. sols ! i = solved_field ex obj u_0 (y ! i) (bvalues ! i)
                 \<and> length (sols ! i) = num_nodes S)"
proof -
  have solves: "\<forall>i<length y. \<exists>res. inner_solve ex obj u_0 (y ! i) (bvalues ! i) = Inr res
                   \<and> length (res_x res) = length (X ! i)"
    using assms(3,6,7) by simp
  have len: "length (solved_field ex obj u_0 (y ! i) (bvalues ! i)) = num_nodes S"
    if "i < length y" for i
    using assms(3,7) that by (auto simp: solved_field_def)
  show ?thesis
    using eval_MSE_char [OF assms(1,2,4,5) solves, where rb = True] len
    by simp
qed

theorem eval_MSE_best_sols_shape_witness:
  "\<exists>sols. eval_MSE probe_extern ex_ind ex_X ex_y ex_bvalues ex_S [0] (Fin 1000)
             (fst (initial_guess ex_S ex_rng)) (const_toolbox zero_energy) True = Inr (BestSols sols)
           \<and> length sols = 3
           \<and> (\<forall>i<3. sols ! i = solved_field probe_extern
                   (bound_objective ex_S [0] (Fin 1000) zero_energy ex_ind)
                   (fst (initial_guess ex_S ex_rng)) (ex_y ! i) (ex_bvalues ! i)
                 \<and> length (sols ! i) = 2)"
proof -
  let ?obj = "bound_objective ex_S [0] (Fin 1000) zero_energy ex_ind"
  let ?u = "fst (initial_guess ex_S ex_rng)"
  have n: "length (coeffs ?u) = num_nodes ex_S"
    by (rule initial_guess_length)
  have solve: "inner_solve probe_extern ?obj ?u vy [v] =
                 Inr \<lparr>res_x = coeffs ?u, res_success = False\<rparr>" for vy v
  proof -
    have "coeffs ?u \<noteq> []" using n by (auto simp: ex_S_def)
    then show ?thesis
      using probe_solve_zero_energy [of "[v]" "[0]" ?u ex_S "Fin 1000" ex_ind vy] by simp
  qed
  have h: "\<forall>i<length ex_y. \<exists>res. inner_solve probe_extern ?obj ?u (ex_y ! i) (ex_bvalues ! i) = Inr res
                   \<and> length (res_x res) = length (coeffs ?u)"
    by (simp add: ex_y_def ex_bvalues_def all_less_Suc solve)
  have c: "compile (const_toolbox zero_energy) ex_ind = Inr zero_energy"
    by (simp add: const_toolbox_def)
  have x: "\<forall>i<length ex_y. length (ex_X ! i) = num_nodes ex_S"
    by (simp add: ex_X_def ex_y_def ex_S_def all_less_Suc)
  have l: "length ex_y \<le> length ex_bvalues" "length ex_y \<le> length ex_X"
    by (simp_all add: ex_X_def ex_y_def ex_bvalues_def)
  have "length ex_y = 3" "num_nodes ex_S = 2"
    by (simp_all add: ex_y_def ex_S_def)
  then show ?thesis
    using eval_MSE_best_sols_shape [OF c refl n l x h] by simp
qed

section \<open>The zero energy\<close>

lemma zero_energy_objective:
  assumes "\<forall>c fk. energy_func c fk = Inr (Fin 0)"
    and "\<forall>b\<in>set bnodes. 0 \<le> b \<and> b < int (length x)" and "length bv = length bnodes"
  shows "total_energy (bound_objective S bnodes gamma energy_func ind) x vy bv =
           Inr (boundary_penalty gamma bnodes x bv)"
  using total_energy_char [of "bound_objective S bnodes gamma energy_func ind" x bv vy] assms
  by (simp add: bound_objective_def set_energy_func_def ObjFunction_init_def)

text \<open>
  With the zero energy the objective is the boundary term alone. Where the initial
  guess differs from the boundary values, the objective is lower elsewhere: the
  initial guess is not a point at which a minimisation can stop.
\<close>

lemma zero_energy_objective_not_minimal:
  "total_energy (bound_objective ex_S [0] (Fin 1000) zero_energy ex_ind)
     [Fin 0, Fin 0] [Fin 1, Fin 1] [Fin 1] = Inr (Fin 500)"
  "total_energy (bound_objective ex_S [0] (Fin 1000) zero_energy ex_ind)
     [Fin 1, Fin 0] [Fin 1, Fin 1] [Fin 1] = Inr (Fin 0)"
  by (simp_all add: zero_energy_objective zero_energy_def boundary_penalty_def np_sum_def
      fpow2_def fsub_def)

text \<open>
  Claim C5, as stated, fails. On the mesh \<open>ex_S\<close> with the three samples of
  \<open>ex_Xfar\<close> and the zero energy, the initial guess has the boundary values of every
  sample, every inner solve returns it, and the aggregate error is \<open>100/3\<close>: the
  squared distance 121 of the first sample counts as 100. The mean squared distance
  between the initial guess and the targets is \<open>121/3\<close>.
\<close>

theorem zero_energy_error_counterexample:
  "eval_MSE probe_extern ex_ind ex_Xfar ex_y ex_bvalues ex_S [0] (Fin 1000) ex_u0
     (const_toolbox zero_energy) True =
     Inr (BestSols [coeffs ex_u0, coeffs ex_u0, coeffs ex_u0])
   \<and> eval_MSE probe_extern ex_ind ex_Xfar ex_y ex_bvalues ex_S [0] (Fin 1000) ex_u0
     (const_toolbox zero_energy) False = Inr (Total (Fin (100 / 3)))
   \<and> mean_err [sq_dist (coeffs ex_u0) (ex_Xfar ! 0), sq_dist (coeffs ex_u0) (ex_Xfar ! 1),
               sq_dist (coeffs ex_u0) (ex_Xfar ! 2)] = Fin (121 / 3)"
proof -
  let ?obj = "bound_objective ex_S [0] (Fin 1000) zero_energy ex_ind"
  have u: "coeffs ex_u0 = [Fin 0, Fin 0]"
    by (simp add: ex_u0_def)
  have solve: "inner_solve probe_extern ?obj ex_u0 vy [v] =
                 Inr \<lparr>res_x = coeffs ex_u0, res_success = False\<rparr>" for vy v
    using probe_solve_zero_energy [of "[v]" "[0]" ex_u0] by (simp add: u)
  have h: "\<forall>i<length ex_y. \<exists>res. inner_solve probe_extern ?obj ex_u0 (ex_y ! i) (ex_bvalues ! i) = Inr res
                   \<and> length (res_x res) = length (ex_Xfar ! i)"
    by (simp add: ex_Xfar_def ex_y_def ex_bvalues_def all_less_Suc solve u)
  have c: "compile (const_toolbox zero_energy) ex_ind = Inr zero_energy"
    by (simp add: const_toolbox_def)
  have l: "length ex_y \<le> length ex_bvalues" "length ex_y \<le> length ex_Xfar"
    by (simp_all add: ex_Xfar_def ex_y_def ex_bvalues_def)
  have best: "eval_MSE probe_extern ex_ind ex_Xfar ex_y ex_bvalues ex_S [0] (Fin 1000) ex_u0
     (const_toolbox zero_energy) True =
     Inr (BestSols [coeffs ex_u0, coeffs ex_u0, coeffs ex_u0])"
    using eval_MSE_char [OF c refl l h, where rb = True]
    by (simp add: solved_field_def solve ex_y_def ex_bvalues_def)
  have err: "eval_MSE probe_extern ex_ind ex_Xfar ex_y ex_bvalues ex_S [0] (Fin 1000) ex_u0
     (const_toolbox zero_energy) False = Inr (Total (Fin (100 / 3)))"
    using eval_MSE_char [OF c refl l h, where rb = False]
    by (simp add: solved_field_def solve u ex_Xfar_def ex_y_def ex_bvalues_def
        clamp_err_def sq_dist_def np_sum_def fpow2_def fsub_def)
  have mean: "mean_err [sq_dist (coeffs ex_u0) (ex_Xfar ! 0), sq_dist (coeffs ex_u0) (ex_Xfar ! 1),
               sq_dist (coeffs ex_u0) (ex_Xfar ! 2)] = Fin (121 / 3)"
    by (simp add: mean_err_def sq_dist_def np_sum_def fpow2_def fsub_def u ex_Xfar_def)
  from best err mean show ?thesis by simp
qed

text \<open>
  Claim C5, amended. For a partition of 3 samples and an individual whose compiled
  energy is identically zero, the objective of every inner solve is the boundary term
  \<open>0.5 \<cdot> gamma \<cdot> \<Sum> (vec_x[bnodes] - vec_bvalues)\<^sup>2\<close> alone; and when every
  inner solve returns the initial guess, the aggregate error is the mean over the 3
  samples of the squared distance between the initial guess and the target, each
  distance that is NaN or greater than 100 replaced by 100.
\<close>

theorem zero_energy_error:
  assumes "compile toolbox ind = Inr energy_func"
    and "\<forall>c fk. energy_func c fk = Inr (Fin 0)"
    and "obj = bound_objective S bnodes gamma energy_func ind"
    and "length X = 3" and "length y = 3" and "length bvalues = 3"
    and "\<forall>i<3. length (X ! i) = length (coeffs u_0)"
    and "\<forall>i<3. \<exists>res. inner_solve ex obj u_0 (y ! i) (bvalues ! i) = Inr res
                  \<and> res_x res = coeffs u_0"
  shows "(\<forall>x vy bv. (\<forall>b\<in>set bnodes. 0 \<le> b \<and> b < int (length x)) \<and> length bv = length bnodes
            \<longrightarrow> total_energy obj x vy bv = Inr (boundary_penalty gamma bnodes x bv))
       \<and> eval_MSE ex ind X y bvalues S bnodes gamma u_0 toolbox False =
           Inr (Total (mean_err (map (\<lambda>i. clamp_err (sq_dist (coeffs u_0) (X ! i))) [0..<3])))"
proof -
  have objective: "\<forall>x vy bv. (\<forall>b\<in>set bnodes. 0 \<le> b \<and> b < int (length x)) \<and> length bv = length bnodes
            \<longrightarrow> total_energy obj x vy bv = Inr (boundary_penalty gamma bnodes x bv)"
    using zero_energy_objective [OF assms(2)] assms(3) by blast
  have solves: "\<forall>i<length y. \<exists>res. inner_solve ex obj u_0 (y ! i) (bvalues ! i) = Inr res
                   \<and> length (res_x res) = length (X ! i)"
    using assms(5,7,8) by (auto simp: all_less_Suc numeral_3_eq_3)
  have field: "solved_field ex obj u_0 (y ! i) (bvalues ! i) = coeffs u_0" if "i < 3" for i
    using assms(8) that by (auto simp: solved_field_def)
  let ?A = "map (\<lambda>i. clamp_err (sq_dist (solved_field ex obj u_0 (y ! i) (bvalues ! i)) (X ! i))) [0..<length y]"
  let ?B = "map (\<lambda>i. clamp_err (sq_dist (coeffs u_0) (X ! i))) [0..<3]"
  have AB: "?A = ?B"
    by (simp add: field assms(5))
  have e: "eval_MSE ex ind X y bvalues S bnodes gamma u_0 toolbox False =
      Inr (Total (fmul (np_sum ?A) (Fin (1 / real (length X)))))"
    using eval_MSE_char [OF assms(1,3) _ _ solves, where rb = False] assms(4,5,6) by simp
  have r: "fmul (np_sum ?B) (Fin (1 / real (length X))) = fdiv_count (np_sum ?B) (length X)"
    by (rule fmul_recip) (simp add: assms(4))
  have m: "mean_err ?B = fdiv_count (np_sum ?B) (length X)"
    by (simp add: mean_err_def assms(4))
  have "eval_MSE ex ind X y bvalues S bnodes gamma u_0 toolbox False = Inr (Total (mean_err ?B))"
    unfolding e AB r m ..
  with objective show ?thesis by simp
qed

theorem zero_energy_error_witness:
  "eval_MSE probe_extern ex_ind ex_Xfar ex_y ex_bvalues ex_S [0] (Fin 1000) ex_u0
     (const_toolbox zero_energy) False =
     Inr (Total (mean_err [Fin 100, Fin 0, Fin 0]))"
proof -
  let ?obj = "bound_objective ex_S [0] (Fin 1000) zero_energy ex_ind"
  have solve: "inner_solve probe_extern ?obj ex_u0 vy [v] =
                 Inr \<lparr>res_x = coeffs ex_u0, res_success = False\<rparr>" for vy v
    using probe_solve_zero_energy [of "[v]" "[0]" ex_u0] by (simp add: ex_u0_def)
  have h: "\<forall>i<3. \<exists>res. inner_solve probe_extern ?obj ex_u0 (ex_y ! i) (ex_bvalues ! i) = Inr res
                   \<and> res_x res = coeffs ex_u0"
    by (simp add: ex_y_def ex_bvalues_def all_less_Suc numeral_3_eq_3 solve)
  have c: "compile (const_toolbox zero_energy) ex_ind = Inr zero_energy"
    by (simp add: const_toolbox_def)
  have z: "\<forall>c fk. zero_energy c fk = Inr (Fin 0)"
    by (simp add: zero_energy_def)
  have l: "length ex_Xfar = 3" "length ex_y = 3" "length ex_bvalues = 3"
    by (simp_all add: ex_Xfar_def ex_y_def ex_bvalues_def)
  have x: "\<forall>i<3. length (ex_Xfar ! i) = length (coeffs ex_u0)"
    by (simp add: ex_Xfar_def ex_u0_def all_less_Suc numeral_3_eq_3)
  show ?thesis
    using zero_energy_error [OF c z refl l x h]
    by (simp add: ex_Xfar_def ex_u0_def clamp_err_def sq_dist_def np_sum_def fpow2_def fsub_def
        numeral_3_eq_3)
qed

section \<open>An energy that raises\<close>

lemma enumerate_rows_Cons: "enumerate_rows (v # vs) = (0, v) # map (\<lambda>(i, w). (Suc i, w)) (enumerate_rows vs)"
proof -
  have "[0..<Suc (length vs)] = 0 # map Suc [0..<length vs]"
    by (simp add: upt_conv_Cons map_Suc_upt del: upt_Suc)
  then show ?thesis
    by (simp add: enumerate_rows_def zip_map1 del: upt_Suc)
qed

lemma eval_MSE_loop_raises:
  assumes "\<forall>p\<in>set ps1. fst p < length bvalues \<and> fst p < length X \<and>
             (\<exists>res. minimize ex (total_energy obj) (coeffs u_0) (snd p, bvalues ! fst p) jac = Inr res
                    \<and> length (res_x res) = length (X ! fst p))"
    and "i < length bvalues"
    and "minimize ex (total_energy obj) (coeffs u_0) (vy, bvalues ! i) jac = Inl e"
  shows "eval_MSE_loop ex obj jac X bvalues u_0 rb (ps1 @ (i, vy) # ps2) st = Inl e"
  using assms(1)
proof (induction ps1 arbitrary: st)
  case Nil
  obtain t sols where st: "st = (t, sols)" by (cases st)
  show ?case
    using assms(2,3) by (simp add: st np_row_def)
next
  case (Cons p ps1)
  obtain t sols where st: "st = (t, sols)" by (cases st)
  obtain j w where p: "p = (j, w)" by (cases p)
  from Cons.prems p obtain res where
    j: "j < length bvalues" "j < length X" and
    res: "minimize ex (total_energy obj) (coeffs u_0) (w, bvalues ! j) jac = Inr res" and
    len: "length (res_x res) = length (X ! j)"
    by auto
  from len obtain d where d: "np_sub (res_x res) (X ! j) = Inr d"
    by (simp add: np_sub_def)
  have rest: "\<forall>p\<in>set ps1. fst p < length bvalues \<and> fst p < length X \<and>
             (\<exists>res. minimize ex (total_energy obj) (coeffs u_0) (snd p, bvalues ! fst p) jac = Inr res
                    \<and> length (res_x res) = length (X ! fst p))"
    using Cons.prems by simp
  show ?case
    using j res d Cons.IH [OF rest]
    by (simp add: st p np_row_def Let_def)
qed

lemma enumerate_rows_split:
  assumes "k < length y"
  shows "enumerate_rows y =
           map (\<lambda>i. (i, y ! i)) [0..<k] @ (k, y ! k) # map (\<lambda>i. (i, y ! i)) [Suc k..<length y]"
proof -
  have "[0..<length y] = [0..<k] @ k # [Suc k..<length y]"
    using assms by (metis le_add1 less_imp_add_positive upt_add_eq_append upt_conv_Cons plus_nat.add_0)
  then show ?thesis
    by (simp add: enumerate_rows_nth)
qed

text \<open>
  Claim C3, as stated, fails. With an energy that raises \<open>TypeError\<close> when it is
  called and an optimizer that evaluates the objective at its starting point,
  \<open>eval_fitness\<close> returns no fitness: it raises that \<open>TypeError\<close>.
\<close>

theorem eval_fitness_energy_raises_counterexample:
  "eval_fitness probe_extern ex_ind ex_X ex_y ex_bvalues ex_S [0] (Fin 1000) ex_u0
     [''method'' \<mapsto> YStr ''none''] (const_toolbox raising_energy) = Inl TypeError"
  by (simp add: eval_fitness_def eval_MSE_def const_toolbox_def Let_def ex_y_def
      enumerate_rows_Cons ex_bvalues_def np_row_def probe_extern_def probe_minimize_def
      total_energy_def ex_u0_def np_index_def np_sub_def set_energy_func_def
      ObjFunction_init_def raising_energy_def)

text \<open>
  Claim C3, amended. \<open>eval_MSE\<close> and \<open>eval_fitness\<close> catch nothing. When the
  solves of the samples before the \<open>k\<close>-th return, the compiled energy raises on the
  initial guess and the \<open>k\<close>-th sample (the boundary term being computable), and the
  optimizer lets an exception of its objective through, both functions raise that
  exception to their caller: no penalty fitness is returned in its place.
\<close>

theorem eval_fitness_energy_raises:
  assumes "compile toolbox ind = Inr energy_func"
    and "obj = bound_objective S bnodes gamma energy_func ind"
    and "k < length y" and "k < length bvalues"
    and "\<forall>i<k. i < length X \<and> (\<exists>res. inner_solve ex obj u_0 (y ! i) (bvalues ! i) = Inr res
                  \<and> length (res_x res) = length (X ! i))"
    and "\<forall>b\<in>set bnodes. 0 \<le> b \<and> b < int (length (coeffs u_0))"
    and "length (bvalues ! k) = length bnodes"
    and "energy_func \<lparr>cochain_complex = S, coeffs = coeffs u_0\<rparr>
           \<lparr>cochain_complex = S, coeffs = y ! k\<rparr> = Inl e"
    and "\<forall>f x0 args jac err. f x0 (fst args) (snd args) = Inl err
           \<longrightarrow> minimize ex f x0 args jac = Inl err"
  shows "eval_MSE ex ind X y bvalues S bnodes gamma u_0 toolbox rb = Inl e
       \<and> eval_fitness ex ind X y bvalues S bnodes gamma u_0 penalty toolbox = Inl e"
proof -
  let ?jac = "jit_grad ex (total_energy obj)"
  have "total_energy obj (coeffs u_0) (y ! k) (bvalues ! k) = Inl e"
    using total_energy_char [of obj "coeffs u_0" "bvalues ! k" "y ! k"] assms(2,6,7,8)
    by (simp add: bound_objective_def set_energy_func_def ObjFunction_init_def)
  with assms(9) have raises: "minimize ex (total_energy obj) (coeffs u_0) (y ! k, bvalues ! k) ?jac = Inl e"
    by simp
  have before: "\<forall>p\<in>set (map (\<lambda>i. (i, y ! i)) [0..<k]). fst p < length bvalues \<and> fst p < length X \<and>
             (\<exists>res. minimize ex (total_energy obj) (coeffs u_0) (snd p, bvalues ! fst p) ?jac = Inr res
                    \<and> length (res_x res) = length (X ! fst p))"
    using assms(4,5) by (auto simp: inner_solve_def)
  have loop: "eval_MSE_loop ex obj ?jac X bvalues u_0 rb (enumerate_rows y) st = Inl e" for rb st
    unfolding enumerate_rows_split [OF assms(3)]
    using before assms(4) raises by (rule eval_MSE_loop_raises)
  have bound: "set_energy_func (ObjFunction_init S bnodes gamma) energy_func ind = obj"
    by (simp add: assms(2) bound_objective_def)
  have "eval_MSE ex ind X y bvalues S bnodes gamma u_0 toolbox rb = Inl e" for rb
    by (simp add: eval_MSE_def assms(1) Let_def bound loop)
  then show ?thesis
    by (simp add: eval_fitness_def)
qed

theorem eval_fitness_energy_raises_witness:
  "eval_MSE probe_extern ex_ind ex_X ex_y ex_bvalues ex_S [0] (Fin 1000) ex_u0
     (const_toolbox picky_energy) True = Inl TypeError
   \<and> eval_fitness probe_extern ex_ind ex_X ex_y ex_bvalues ex_S [0] (Fin 1000) ex_u0
     [''method'' \<mapsto> YStr ''length'', ''reg_param'' \<mapsto> YNum (Fin 0.5)]
     (const_toolbox picky_energy) = Inl TypeError"
proof -
  let ?obj = "bound_objective ex_S [0] (Fin 1000) picky_energy ex_ind"
  have c: "compile (const_toolbox picky_energy) ex_ind = Inr picky_energy"
    by (simp add: const_toolbox_def)
  have k: "1 < length ex_y" "1 < length ex_bvalues"
    by (simp_all add: ex_y_def ex_bvalues_def)
  have first: "inner_solve probe_extern ?obj ex_u0 (ex_y ! 0) (ex_bvalues ! 0) =
                 Inr \<lparr>res_x = coeffs ex_u0, res_success = False\<rparr>"
    by (simp add: inner_solve_def probe_extern_def probe_minimize_def total_energy_def
        np_index_def np_sub_def bound_objective_def set_energy_func_def ObjFunction_init_def
        picky_energy_def ex_u0_def ex_y_def ex_bvalues_def)
  have p: "\<forall>i<1. i < length ex_X \<and> (\<exists>res. inner_solve probe_extern ?obj ex_u0
             (ex_y ! i) (ex_bvalues ! i) = Inr res \<and> length (res_x res) = length (ex_X ! i))"
    using first by (simp add: ex_X_def ex_u0_def)
  have n: "\<forall>b\<in>set [0]. 0 \<le> b \<and> b < int (length (coeffs ex_u0))"
    by (simp add: ex_u0_def)
  have b: "length (ex_bvalues ! 1) = length [0::int]"
    by (simp add: ex_bvalues_def)
  have e: "picky_energy \<lparr>cochain_complex = ex_S, coeffs = coeffs ex_u0\<rparr>
           \<lparr>cochain_complex = ex_S, coeffs = ex_y ! 1\<rparr> = Inl TypeError"
    by (simp add: picky_energy_def ex_y_def)
  have m: "\<forall>f x0 args jac err. f x0 (fst args) (snd args) = Inl err
           \<longrightarrow> minimize probe_extern f x0 args jac = Inl err"
    by (simp add: probe_extern_def probe_minimize_def)
  show ?thesis
    using eval_fitness_energy_raises [OF c refl k p n b e m, where rb = True
        and penalty = "[''method'' \<mapsto> YStr ''length'', ''reg_param'' \<mapsto> YNum (Fin 0.5)]"]
    by simp
qed

end
